theory Spec2Isabelle
  imports Complex_Main
begin

section \<open>JavaScript strings and numbers used by the panels\<close>

text \<open>
  Strings are lists of characters. Numbers that the code computes with are integers or
  exact fractions: a file size divided by a power of 1024 is exact in binary floating
  point as well, so \<^typ>\<open>rat\<close> carries the same value as the double. The value
  \<open>NaN\<close> is \<open>None\<close>.
\<close>

definition digit_char :: "nat \<Rightarrow> char" where
  "digit_char d = ''0123456789'' ! (d mod 10)"

definition is_digit :: "char \<Rightarrow> bool" where
  "is_digit c = (c \<in> set ''0123456789'')"

definition digit_val :: "char \<Rightarrow> nat" where
  "digit_val c = of_char c - 48"

text \<open>Decimal rendering of a non-negative integer, as \<open>String(n)\<close> gives it.\<close>

function show_nat :: "nat \<Rightarrow> string" where
  "show_nat n = (if n < 10 then [digit_char n] else show_nat (n div 10) @ [digit_char (n mod 10)])"
  by pat_completeness auto
termination
  by (relation "measure id") auto

declare show_nat.simps [simp del]

definition digits_val :: "string \<Rightarrow> nat" where
  "digits_val ds = foldl (\<lambda>a c. 10 * a + digit_val c) 0 ds"

text \<open>
  White space and line terminators that \<open>String.prototype.trim\<close> and the number
  parsers skip, among the characters of \<^typ>\<open>char\<close>: TAB, LF, VT, FF, CR, SP and NBSP.
\<close>

definition js_space :: "char \<Rightarrow> bool" where
  "js_space c = ((of_char c :: nat) \<in> {9, 10, 11, 12, 13, 32, 160})"

definition trim :: "string \<Rightarrow> string" where
  "trim s = rev (dropWhile js_space (rev (dropWhile js_space s)))"

text \<open>
  \<open>x.toFixed(2)\<close>: the integer \<open>n\<close> with \<open>n / 100\<close> nearest to \<open>x\<close> (the larger one
  on a tie), written with exactly two fractional digits.
\<close>

definition toFixed2 :: "rat \<Rightarrow> string" where
  "toFixed2 x =
     (let a = \<bar>x\<bar>;
          n = nat \<lfloor>a * 100 + 1 / 2\<rfloor>
      in (if x < 0 then ''-'' else '''') @ show_nat (n div 100) @ ''.'' @
         [digit_char (n div 10 mod 10), digit_char (n mod 10)])"

text \<open>
  \<open>parseFloat\<close>: leading white space, an optional sign, decimal digits with an optional
  fraction; the longest such prefix is read and the rest ignored. No digit at all gives
  \<open>NaN\<close>. Exponents and the literal \<open>Infinity\<close> are not read by this model; \<open>toFixed\<close>
  produces neither for the magnitudes of a file size.
\<close>

definition parseFloat :: "string \<Rightarrow> rat option" where
  "parseFloat s =
     (let t = dropWhile js_space s;
          neg = (t \<noteq> [] \<and> hd t = CHR ''-'');
          u = (if t \<noteq> [] \<and> (hd t = CHR ''-'' \<or> hd t = CHR ''+'') then tl t else t);
          ip = takeWhile is_digit u;
          r = dropWhile is_digit u;
          fp = (if r \<noteq> [] \<and> hd r = CHR ''.'' then takeWhile is_digit (tl r) else []);
          v = of_nat (digits_val ip) + of_nat (digits_val fp) / 10 ^ length fp
      in if ip = [] \<and> fp = [] then None else Some (if neg then - v else v))"

text \<open>
  \<open>String(x)\<close> for a number with at most two fractional digits (every value that
  \<open>parseFloat\<close> reads back from a \<open>toFixed(2)\<close> string): the shortest decimal that
  denotes it, so trailing zeros of the fraction and a bare decimal point are not written.
\<close>

definition number_to_string :: "rat option \<Rightarrow> string" where
  "number_to_string v =
     (case v of
        None \<Rightarrow> ''NaN''
      | Some x \<Rightarrow>
          (let n = nat \<lfloor>\<bar>x\<bar> * 100\<rfloor>;
               f = n mod 100
           in (if x < 0 then ''-'' else '''') @ show_nat (n div 100) @
              (if f = 0 then ''''
               else if f mod 10 = 0 then ''.'' @ [digit_char (f div 10)]
               else ''.'' @ [digit_char (f div 10), digit_char (f mod 10)])))"

section \<open>Upload panel (Upload.jsx)\<close>

text \<open>
  \<open>Math.floor(Math.log(bytes) / Math.log(k))\<close>, read over the reals: the largest \<open>i\<close>
  with \<open>k ^ i \<le> bytes\<close>, computed on integers (that the two agree is
  \<open>floor_log_is_floor_of_quotient_of_logs\<close> below).
\<close>

function floor_log :: "nat \<Rightarrow> nat \<Rightarrow> nat" where
  "floor_log k n = (if k < 2 \<or> n < k then 0 else Suc (floor_log k (n div k)))"
  by pat_completeness auto
termination
  by (relation "measure snd") auto

declare floor_log.simps [simp del]

definition sizes :: "string list" where
  "sizes = [''Bytes'', ''KB'', ''MB'', ''GB'']"

text \<open>\<open>sizes[i]\<close> is \<open>undefined\<close> past the end of the array, which concatenates as text.\<close>

definition sizes_at :: "nat \<Rightarrow> string" where
  "sizes_at i = (if i < length sizes then sizes ! i else ''undefined'')"

definition formatFileSize :: "nat \<Rightarrow> string" where
  "formatFileSize bytes =
     (if bytes = 0 then ''0 Bytes''
      else
        (let k = 1024;
             i = floor_log k bytes
         in number_to_string (parseFloat (toFixed2 (of_nat bytes / of_nat k ^ i)))
            @ '' '' @ sizes_at i))"

text \<open>
  File objects and the document descriptors of the shared list. Field names carry a
  prefix where two record types of the source share a name (\<open>name\<close>, \<open>size\<close>).
\<close>

record file_obj =
  file_name :: string
  file_size :: nat

record document =
  doc_name :: string
  doc_size :: string
  doc_status :: string

section \<open>HTTP client wrapper (services/api.js)\<close>

record upload_result =
  result_chapters :: "string list"

record citation =
  cite_source :: string
  cite_page :: nat
  cite_chapter :: "string option"

text \<open>The body of \<open>POST /query\<close>; \<open>chapter_filter\<close> is \<open>None\<close> for \<open>null\<close>.\<close>

record query_body =
  query :: string
  chapter_filter :: "string option"
  model_name :: string

record query_response =
  answer :: string
  sources :: "citation list"
  model_used :: string

text \<open>The body of \<open>POST /generate-quiz\<close>; \<open>num_questions\<close> is \<open>None\<close> for \<open>NaN\<close>.\<close>

record quiz_body =
  quiz_chapter :: string
  num_questions :: "int option"

record quiz_response =
  questions :: string
  quiz_model :: string

record model_descriptor =
  model_display_name :: string
  model_description :: string

datatype error = Error string

datatype request =
    PostUpload "file_obj list"
  | PostQuery query_body
  | PostGenerateQuiz quiz_body
  | GetChapters
  | GetModels
  | DeleteClear
  | GetHealth

text \<open>
  Each function of the wrapper issues one request. The default values of
  \<open>chapterFilter\<close>, \<open>modelName\<close> and \<open>numQuestions\<close> stand in for an omitted argument
  only; the panels pass every argument.
\<close>

definition uploadPDFs :: "file_obj list \<Rightarrow> request" where
  "uploadPDFs files = PostUpload files"

definition queryDocuments :: "string \<Rightarrow> string option \<Rightarrow> string \<Rightarrow> request" where
  "queryDocuments q chapterFilter modelName =
     PostQuery \<lparr>query = q, chapter_filter = chapterFilter, model_name = modelName\<rparr>"

definition generateQuiz :: "string \<Rightarrow> int option \<Rightarrow> request" where
  "generateQuiz ch numQ = PostGenerateQuiz \<lparr>quiz_chapter = ch, num_questions = numQ\<rparr>"

definition clearAllData :: request where
  "clearAllData = DeleteClear"

definition getModels :: request where
  "getModels = GetModels"

definition healthCheck :: request where
  "healthCheck = GetHealth"

section \<open>Observable effects of a handler\<close>

text \<open>
  A handler returns the state it leaves together with the effects it had, in order:
  requests handed to the HTTP client, notifications, console output, the confirmation
  dialog, and \<open>preventDefault\<close> on the event. A rejected request passes the response
  interceptor of the client first, which logs it.
\<close>

datatype toast_kind = ToastLoading | ToastSuccess | ToastError

datatype effect =
    Http request
  | Toast toast_kind string
  | ConsoleError string
  | Confirm string
  | PreventDefault

definition interceptor :: "effect list" where
  "interceptor = [ConsoleError ''API Error:'']"

section \<open>Navigation shell (App.jsx)\<close>

record app_state =
  activeTab :: string
  documents :: "document list"
  chapters :: "string list"
  selectedModel :: string
  isSidebarOpen :: bool
  isLoading :: bool

definition app_init :: app_state where
  "app_init =
     \<lparr>activeTab = ''upload'', documents = [], chapters = [],
      selectedModel = ''gemini-1.5-flash'', isSidebarOpen = True, isLoading = False\<rparr>"

text \<open>The \<open>onClear\<close> callback handed to the sidebar.\<close>

definition onClear :: "app_state \<Rightarrow> app_state" where
  "onClear a = a\<lparr>documents := [], chapters := []\<rparr>"

section \<open>Upload panel: dropping files\<close>

definition newDocs :: "file_obj list \<Rightarrow> document list" where
  "newDocs acceptedFiles =
     map (\<lambda>f. \<lparr>doc_name = file_name f, doc_size = formatFileSize (file_size f),
                doc_status = ''processed''\<rparr>) acceptedFiles"

text \<open>
  \<open>onDrop\<close> runs up to the \<open>await\<close> (\<open>onDrop_begin\<close>); the rest runs when the request
  settles (\<open>onDrop_resume\<close>), on the state of that moment, since the setters take the
  previous list. \<open>onDrop\<close> is the handler when nothing else happens in between;
  \<open>server\<close> is the backend's answer to the request.
\<close>

definition onDrop_begin :: "file_obj list \<Rightarrow> app_state \<Rightarrow> app_state \<times> effect list" where
  "onDrop_begin acceptedFiles a =
     (if length acceptedFiles = 0 then (a, [])
      else (a\<lparr>isLoading := True\<rparr>,
            [Toast ToastLoading ''Uploading and processing PDFs...'',
             Http (uploadPDFs acceptedFiles)]))"

definition onDrop_resume ::
  "file_obj list \<Rightarrow> error + upload_result \<Rightarrow> app_state \<Rightarrow> app_state \<times> effect list" where
  "onDrop_resume acceptedFiles outcome a =
     (case outcome of
        Inr result \<Rightarrow>
          (a\<lparr>documents := documents a @ newDocs acceptedFiles,
             chapters := result_chapters result,
             isLoading := False\<rparr>,
           [Toast ToastSuccess
              (''Successfully processed '' @ show_nat (length acceptedFiles) @ '' PDFs'')])
      | Inl err \<Rightarrow>
          (a\<lparr>isLoading := False\<rparr>,
           interceptor @
           [Toast ToastError ''Failed to upload PDFs. Please try again.'',
            ConsoleError ''Upload error:'']))"

definition onDrop ::
  "(file_obj list \<Rightarrow> error + upload_result) \<Rightarrow> file_obj list \<Rightarrow> app_state \<Rightarrow> app_state \<times> effect list" where
  "onDrop server acceptedFiles a =
     (if length acceptedFiles = 0 then (a, [])
      else
        (let (a1, fx1) = onDrop_begin acceptedFiles a;
             (a2, fx2) = onDrop_resume acceptedFiles (server acceptedFiles) a1
         in (a2, fx1 @ fx2)))"

section \<open>Chat panel (Chat.jsx)\<close>

datatype role = User | Assistant

text \<open>A message; \<open>sources\<close> and \<open>model\<close> are absent on a user message.\<close>

record message =
  role :: role
  content :: string
  msg_sources :: "citation list option"
  msg_model :: "string option"
  timestamp :: string

record chat_state =
  messages :: "message list"
  input :: string
  selectedChapter :: string

definition chat_init :: chat_state where
  "chat_init = \<lparr>messages = [], input = '''', selectedChapter = ''All Chapters''\<rparr>"

text \<open>
  \<open>handleSend\<close>, split at its \<open>await\<close> like \<open>onDrop\<close>. \<open>now\<close> is the reading of the
  clock for the time stamp. The handler reads \<open>input\<close>, \<open>selectedChapter\<close> and
  \<open>selectedModel\<close> as they were when it was called.
\<close>

definition handleSend_request :: "app_state \<Rightarrow> chat_state \<Rightarrow> request" where
  "handleSend_request a c =
     queryDocuments (input c)
       (if selectedChapter c = ''All Chapters'' then None else Some (selectedChapter c))
       (selectedModel a)"

definition handleSend_begin ::
  "string \<Rightarrow> app_state \<Rightarrow> chat_state \<Rightarrow> (app_state \<times> chat_state) \<times> effect list" where
  "handleSend_begin now a c =
     (if trim (input c) = '''' then ((a, c), [])
      else
        (let userMessage =
               \<lparr>role = User, content = input c, msg_sources = None, msg_model = None,
                timestamp = now\<rparr>
         in ((a\<lparr>isLoading := True\<rparr>,
              c\<lparr>messages := messages c @ [userMessage], input := ''''\<rparr>),
             [Http (handleSend_request a c)])))"

definition handleSend_resume ::
  "string \<Rightarrow> error + query_response \<Rightarrow> app_state \<Rightarrow> chat_state \<Rightarrow>
   (app_state \<times> chat_state) \<times> effect list" where
  "handleSend_resume now outcome a c =
     (case outcome of
        Inr response \<Rightarrow>
          (let aiMessage =
                 \<lparr>role = Assistant, content = answer response,
                  msg_sources = Some (sources response),
                  msg_model = Some (model_used response), timestamp = now\<rparr>
           in ((a\<lparr>isLoading := False\<rparr>, c\<lparr>messages := messages c @ [aiMessage]\<rparr>), []))
      | Inl err \<Rightarrow>
          ((a\<lparr>isLoading := False\<rparr>, c),
           interceptor @
           [Toast ToastError ''Failed to get response. Please try again.'',
            ConsoleError ''Query error:'']))"

definition handleSend ::
  "(request \<Rightarrow> error + query_response) \<Rightarrow> string \<Rightarrow> string \<Rightarrow> app_state \<Rightarrow> chat_state \<Rightarrow>
   (app_state \<times> chat_state) \<times> effect list" where
  "handleSend server now1 now2 a c =
     (if trim (input c) = '''' then ((a, c), [])
      else
        (let ((a1, c1), fx1) = handleSend_begin now1 a c;
             ((a2, c2), fx2) = handleSend_resume now2 (server (handleSend_request a c)) a1 c1
         in ((a2, c2), fx1 @ fx2)))"

text \<open>The keyboard event, with the modifier flags a \<open>KeyboardEvent\<close> carries.\<close>

record key_event =
  key :: string
  shiftKey :: bool
  ctrlKey :: bool
  altKey :: bool
  metaKey :: bool

definition handleKeyPress ::
  "(request \<Rightarrow> error + query_response) \<Rightarrow> string \<Rightarrow> string \<Rightarrow> key_event \<Rightarrow>
   app_state \<Rightarrow> chat_state \<Rightarrow> (app_state \<times> chat_state) \<times> effect list" where
  "handleKeyPress server now1 now2 e a c =
     (if key e = ''Enter'' \<and> \<not> shiftKey e then
        (let (st, fx) = handleSend server now1 now2 a c in (st, PreventDefault # fx))
      else ((a, c), []))"

section \<open>Quiz panel (Quiz.jsx)\<close>

definition is_hex_digit :: "char \<Rightarrow> bool" where
  "is_hex_digit c = (c \<in> set ''0123456789abcdefABCDEF'')"

definition hex_digit_val :: "char \<Rightarrow> nat" where
  "hex_digit_val c =
     (let n = of_char c
      in if 97 \<le> n then n - 87 else if 65 \<le> n then n - 55 else n - 48)"

definition hex_val :: "string \<Rightarrow> nat" where
  "hex_val ds = foldl (\<lambda>a c. 16 * a + hex_digit_val c) 0 ds"

text \<open>
  \<open>parseInt(s)\<close> without a radix: leading white space and a sign are skipped, a prefix
  \<open>0x\<close> or \<open>0X\<close> selects base 16, and the longest run of digits is read; with no digit
  the result is \<open>NaN\<close>.
\<close>

definition parseInt :: "string \<Rightarrow> int option" where
  "parseInt s =
     (let t = dropWhile js_space s;
          neg = (t \<noteq> [] \<and> hd t = CHR ''-'');
          u = (if t \<noteq> [] \<and> (hd t = CHR ''-'' \<or> hd t = CHR ''+'') then tl t else t);
          hex = (take 2 u = ''0x'' \<or> take 2 u = ''0X'');
          z = (if hex then takeWhile is_hex_digit (drop 2 u) else takeWhile is_digit u);
          n = (if hex then hex_val z else digits_val z)
      in if z = [] then None else Some (if neg then - int n else int n))"

record quiz_state =
  quiz_selectedChapter :: string
  numQuestions :: "int option"
  quiz :: "quiz_response option"

definition quiz_init :: quiz_state where
  "quiz_init = \<lparr>quiz_selectedChapter = '''', numQuestions = Some 5, quiz = None\<rparr>"

text \<open>
  The two controls: the chapter \<open>select\<close> stores the chosen value, the number field
  (declared with \<open>min="1" max="10"\<close>) stores \<open>parseInt\<close> of its text.
\<close>

definition chapter_onChange :: "string \<Rightarrow> quiz_state \<Rightarrow> quiz_state" where
  "chapter_onChange v q = q\<lparr>quiz_selectedChapter := v\<rparr>"

definition numQuestions_onChange :: "string \<Rightarrow> quiz_state \<Rightarrow> quiz_state" where
  "numQuestions_onChange v q = q\<lparr>numQuestions := parseInt v\<rparr>"

definition handleGenerateQuiz_begin ::
  "app_state \<Rightarrow> quiz_state \<Rightarrow> (app_state \<times> quiz_state) \<times> effect list" where
  "handleGenerateQuiz_begin a q =
     (if quiz_selectedChapter q = '''' then ((a, q), [Toast ToastError ''Please select a chapter''])
      else ((a\<lparr>isLoading := True\<rparr>, q),
            [Http (generateQuiz (quiz_selectedChapter q) (numQuestions q))]))"

definition handleGenerateQuiz_resume ::
  "error + quiz_response \<Rightarrow> app_state \<Rightarrow> quiz_state \<Rightarrow> (app_state \<times> quiz_state) \<times> effect list" where
  "handleGenerateQuiz_resume outcome a q =
     (case outcome of
        Inr response \<Rightarrow>
          ((a\<lparr>isLoading := False\<rparr>, q\<lparr>quiz := Some response\<rparr>),
           [Toast ToastSuccess ''Quiz generated successfully!''])
      | Inl err \<Rightarrow>
          ((a\<lparr>isLoading := False\<rparr>, q),
           interceptor @
           [Toast ToastError ''Failed to generate quiz. Please try again.'',
            ConsoleError ''Quiz generation error:'']))"

definition handleGenerateQuiz ::
  "(request \<Rightarrow> error + quiz_response) \<Rightarrow> app_state \<Rightarrow> quiz_state \<Rightarrow>
   (app_state \<times> quiz_state) \<times> effect list" where
  "handleGenerateQuiz server a q =
     (if quiz_selectedChapter q = '''' then handleGenerateQuiz_begin a q
      else
        (let ((a1, q1), fx1) = handleGenerateQuiz_begin a q;
             ((a2, q2), fx2) =
                handleGenerateQuiz_resume
                  (server (generateQuiz (quiz_selectedChapter q) (numQuestions q))) a1 q1
         in ((a2, q2), fx1 @ fx2)))"

text \<open>The button: \<open>disabled={isLoading || !selectedChapter}\<close>.\<close>

definition generate_btn_disabled :: "app_state \<Rightarrow> quiz_state \<Rightarrow> bool" where
  "generate_btn_disabled a q = (isLoading a \<or> quiz_selectedChapter q = '''')"

section \<open>Sidebar (Sidebar.jsx)\<close>

text \<open>The sidebar's own state; its \<open>isLoading\<close> is not the flag of the shell.\<close>

record sidebar_state =
  models :: "(string \<times> model_descriptor) list"
  sb_isLoading :: bool

definition sidebar_init :: sidebar_state where
  "sidebar_init = \<lparr>models = [], sb_isLoading = False\<rparr>"

definition loadModels_resume ::
  "error + (string \<times> model_descriptor) list \<Rightarrow> sidebar_state \<Rightarrow> sidebar_state \<times> effect list" where
  "loadModels_resume outcome sb =
     (case outcome of
        Inr data \<Rightarrow> (sb\<lparr>models := data\<rparr>, [])
      | Inl err \<Rightarrow> (sb, interceptor @ [ConsoleError ''Failed to load models:'']))"

text \<open>
  \<open>handleClearAll\<close>: \<open>confirmed\<close> is the user's answer in the \<open>window.confirm\<close>
  dialog, \<open>outcome\<close> the result of the \<open>DELETE /clear\<close> request.
\<close>

definition handleClearAll_begin ::
  "bool \<Rightarrow> app_state \<Rightarrow> sidebar_state \<Rightarrow> (app_state \<times> sidebar_state) \<times> effect list" where
  "handleClearAll_begin confirmed a sb =
     (if confirmed then
        ((a, sb\<lparr>sb_isLoading := True\<rparr>),
         [Confirm ''Are you sure? This will delete all uploaded documents.'',
          Http clearAllData])
      else ((a, sb), [Confirm ''Are you sure? This will delete all uploaded documents.'']))"

definition handleClearAll_resume ::
  "error + string \<Rightarrow> app_state \<Rightarrow> sidebar_state \<Rightarrow> (app_state \<times> sidebar_state) \<times> effect list" where
  "handleClearAll_resume outcome a sb =
     (case outcome of
        Inr body \<Rightarrow>
          ((onClear a, sb\<lparr>sb_isLoading := False\<rparr>), [Toast ToastSuccess ''All data cleared''])
      | Inl err \<Rightarrow>
          ((a, sb\<lparr>sb_isLoading := False\<rparr>),
           interceptor @ [Toast ToastError ''Failed to clear data'']))"

definition handleClearAll ::
  "bool \<Rightarrow> error + string \<Rightarrow> app_state \<Rightarrow> sidebar_state \<Rightarrow>
   (app_state \<times> sidebar_state) \<times> effect list" where
  "handleClearAll confirmed outcome a sb =
     (if confirmed then
        (let ((a1, sb1), fx1) = handleClearAll_begin confirmed a sb;
             ((a2, sb2), fx2) = handleClearAll_resume outcome a1 sb1
         in ((a2, sb2), fx1 @ fx2))
      else handleClearAll_begin confirmed a sb)"

text \<open>
  The button: \<open>disabled={isLoading || documents.length === 0}\<close>. A click on a disabled
  button reaches no handler.
\<close>

definition clear_btn_disabled :: "app_state \<Rightarrow> sidebar_state \<Rightarrow> bool" where
  "clear_btn_disabled a sb = (sb_isLoading sb \<or> length (documents a) = 0)"

definition clear_btn_click ::
  "bool \<Rightarrow> app_state \<Rightarrow> sidebar_state \<Rightarrow> (app_state \<times> sidebar_state) \<times> effect list" where
  "clear_btn_click confirmed a sb =
     (if clear_btn_disabled a sb then ((a, sb), []) else handleClearAll_begin confirmed a sb)"

section \<open>The shell with its sidebar: mounting, clearing, uploading\<close>

text \<open>
  The shell renders the sidebar inside \<open>AnimatePresence\<close>, only while \<open>isSidebarOpen\<close>
  holds. When the flag turns false the sidebar is not taken away at once: it stays on
  screen for its exit animation, drawn from the props of its last render by the shell,
  with its own state alive and its button open to clicks, and it is unmounted when the
  animation has ended (\<open>ExitComplete\<close>). Opening the sidebar again before that keeps the
  same sidebar with its state; opening it after that mounts a fresh one.

  \<open>sidebar\<close> is the own state of the sidebar on screen (\<open>None\<close> when there is none),
  \<open>exit_props\<close> the state of the shell at the last render of the sidebar before it was
  closed, and \<open>sidebar_id\<close> counts the sidebars mounted. \<open>clear_pending\<close> lists the clear
  requests in flight, each under the number of the sidebar that issued it. When such a
  request settles, the continuation of \<open>handleClearAll\<close> runs whatever is on screen by
  then: \<open>onClear\<close> (on success) acts on the shell, while \<open>setIsLoading(false)\<close> acts on the
  sidebar that issued the request and is lost once that sidebar is gone. An upload is
  taken as one step, from the drop to the settled request.
\<close>

record system =
  app :: app_state
  sidebar :: "sidebar_state option"
  exit_props :: app_state
  sidebar_id :: nat
  clear_pending :: "nat list"

definition system_init :: system where
  "system_init =
     \<lparr>app = app_init, sidebar = Some sidebar_init, exit_props = app_init, sidebar_id = 0,
      clear_pending = []\<rparr>"

text \<open>The props the sidebar on screen is drawn from.\<close>

definition sidebar_view :: "system \<Rightarrow> app_state" where
  "sidebar_view s = (if isSidebarOpen (app s) then app s else exit_props s)"

datatype event =
    DropFiles "file_obj list" "error + upload_result"
  | ToggleSidebar
  | ExitComplete
  | ClickClear bool
  | ClearSettled nat "error + string"

fun step :: "event \<Rightarrow> system \<Rightarrow> system \<times> effect list" where
  "step (DropFiles acceptedFiles outcome) s =
     (let (a1, fx) = onDrop (\<lambda>_. outcome) acceptedFiles (app s) in (s\<lparr>app := a1\<rparr>, fx))"
| "step ToggleSidebar s =
     (if isSidebarOpen (app s) then
        (s\<lparr>app := (app s)\<lparr>isSidebarOpen := False\<rparr>, exit_props := app s\<rparr>, [])
      else
        (case sidebar s of
           Some sb \<Rightarrow> (s\<lparr>app := (app s)\<lparr>isSidebarOpen := True\<rparr>\<rparr>, [])
         | None \<Rightarrow>
             (s\<lparr>app := (app s)\<lparr>isSidebarOpen := True\<rparr>, sidebar := Some sidebar_init,
                sidebar_id := Suc (sidebar_id s)\<rparr>,
              [Http getModels])))"
| "step ExitComplete s =
     (if isSidebarOpen (app s) then (s, []) else (s\<lparr>sidebar := None\<rparr>, []))"
| "step (ClickClear confirmed) s =
     (case sidebar s of
        None \<Rightarrow> (s, [])
      | Some sb \<Rightarrow>
          (let ((a1, sb1), fx) = clear_btn_click confirmed (sidebar_view s) sb
           in (s\<lparr>sidebar := Some sb1,
                 clear_pending :=
                   clear_pending s @ (if Http clearAllData \<in> set fx then [sidebar_id s] else [])\<rparr>,
               fx)))"
| "step (ClearSettled i outcome) s =
     (if i \<notin> set (clear_pending s) then (s, [])
      else
        (case sidebar s of
           Some sb \<Rightarrow>
             (let ((a1, sb1), fx) = handleClearAll_resume outcome (app s) sb
              in (s\<lparr>app := a1, sidebar := Some (if sidebar_id s = i then sb1 else sb),
                    clear_pending := remove1 i (clear_pending s)\<rparr>,
                  fx))
         | None \<Rightarrow>
             (let ((a1, sb1), fx) = handleClearAll_resume outcome (app s) sidebar_init
              in (s\<lparr>app := a1, clear_pending := remove1 i (clear_pending s)\<rparr>, fx))))"

definition run :: "event list \<Rightarrow> system \<Rightarrow> system" where
  "run evs s = foldl (\<lambda>s1 e. fst (step e s1)) s evs"

text \<open>
  What holds of the sidebar in every state the shell can reach: no sidebar has two clear
  requests in flight, every request in flight comes from the sidebar on screen or an
  earlier one, and while a request of the sidebar on screen is in flight its \<open>isLoading\<close>
  is set.
\<close>

definition sidebar_inv :: "system \<Rightarrow> bool" where
  "sidebar_inv s =
     (distinct (clear_pending s) \<and>
      list_all (\<lambda>i. i \<le> sidebar_id s) (clear_pending s) \<and>
      (if sidebar_id s \<in> set (clear_pending s)
       then (case sidebar s of Some sb \<Rightarrow> sb_isLoading sb | None \<Rightarrow> True)
       else True))"

section \<open>Evaluation lemmas\<close>

lemma floor_rat_numeral_div:
  "\<lfloor>numeral a / numeral b :: rat\<rfloor> = numeral a div numeral b"
  using floor_divide_of_int_eq [of "numeral a" "numeral b", where ?'a = rat] by simp

lemma floor_log_MiB: "floor_log 1024 1048576 = 2"
  by (simp add: floor_log.simps)

lemma toFixed2_one: "toFixed2 1 = ''1.00''"
  by (simp add: toFixed2_def show_nat.simps digit_char_def Let_def floor_rat_numeral_div)

lemma parseFloat_one: "parseFloat ''1.00'' = Some 1"
  by (simp add: parseFloat_def js_space_def is_digit_def digits_val_def digit_val_def)

lemma number_to_string_one: "number_to_string (Some 1) = ''1''"
  by (simp add: number_to_string_def show_nat.simps digit_char_def Let_def)

lemma formatFileSize_MiB: "formatFileSize 1048576 = ''1 MB''"
  by (simp add: formatFileSize_def floor_log_MiB toFixed2_one parseFloat_one
      number_to_string_one sizes_at_def sizes_def)

section \<open>The index of the unit is the floor of the quotient of logarithms\<close>

lemma floor_log_small: "n < k \<Longrightarrow> floor_log k n = 0"
  by (simp add: floor_log.simps [of k n])

lemma floor_log_rec: "2 \<le> k \<Longrightarrow> k \<le> n \<Longrightarrow> floor_log k n = Suc (floor_log k (n div k))"
  by (simp add: floor_log.simps [of k n])

lemma floor_log_bounds:
  "2 \<le> k \<Longrightarrow> 1 \<le> n \<Longrightarrow> k ^ floor_log k n \<le> n \<and> n < k ^ Suc (floor_log k n)"
proof (induction n rule: less_induct)
  case (less n)
  show ?case
  proof (cases "n < k")
    case True
    with less.prems show ?thesis by (simp add: floor_log_small)
  next
    case False
    then have kn: "k \<le> n" by simp
    from less.prems have k0: "0 < k" by simp
    from kn k0 have pos: "1 \<le> n div k"
      by (simp add: Suc_le_eq div_greater_zero_iff)
    from less.prems kn have lt: "n div k < n" by simp
    define m where "m = floor_log k (n div k)"
    from less.IH [OF lt less.prems(1) pos]
    have ih1: "k ^ m \<le> n div k" and ih2: "n div k < k ^ Suc m"
      by (simp_all add: m_def)
    have eq: "floor_log k n = Suc m"
      using less.prems kn by (simp add: floor_log_rec m_def)
    from ih1 have "k * k ^ m \<le> k * (n div k)" by (rule mult_le_mono2)
    also have "\<dots> \<le> n" by simp
    finally have lo: "k ^ Suc m \<le> n" by simp
    from ih2 k0 have "n < k ^ Suc m * k"
      by (simp only: div_less_iff_less_mult)
    then have hi: "n < k ^ Suc (Suc m)" by (simp add: mult.commute)
    from lo hi show ?thesis by (simp only: eq)
  qed
qed

text \<open>
  On the reals, \<open>floor_log k n\<close> is the value of the source expression
  \<open>Math.floor(Math.log(n) / Math.log(k))\<close>.
\<close>

lemma floor_log_is_floor_of_quotient_of_logs:
  assumes "2 \<le> k" and "1 \<le> n"
  shows "\<lfloor>ln (real n) / ln (real k)\<rfloor> = int (floor_log k n)"
proof -
  from floor_log_bounds [OF assms]
  have "k ^ floor_log k n \<le> n" "n < k ^ (floor_log k n + 1)" by simp_all
  then have "\<lfloor>log (real k) (real n)\<rfloor> = int (floor_log k n)"
    using assms(1) by (rule floor_log_nat_eq_if)
  then show ?thesis by (simp add: log_def)
qed

text \<open>\<open>floor_log k n\<close> is the only exponent whose power and next power enclose \<open>n\<close>.\<close>

lemma floor_log_unique:
  assumes "2 \<le> k" and "k ^ i \<le> n" and "n < k ^ Suc i"
  shows "floor_log k n = i"
proof -
  from assms(1) have kp: "0 < k ^ i" by simp
  from kp assms(2) have "0 < n" by (rule less_le_trans)
  then have n1: "1 \<le> n" by simp
  define j where "j = floor_log k n"
  from floor_log_bounds [OF assms(1) n1]
  have lo: "k ^ j \<le> n" and hi: "n < k ^ Suc j" by (simp_all add: j_def)
  from assms(1) have k1: "1 \<le> k" by simp
  have "\<not> j < i"
  proof
    assume "j < i"
    then have "Suc j \<le> i" by simp
    then have "k ^ Suc j \<le> k ^ i" using k1 by (rule power_increasing)
    with assms(2) hi show False by simp
  qed
  moreover have "\<not> i < j"
  proof
    assume "i < j"
    then have "Suc i \<le> j" by simp
    then have "k ^ Suc i \<le> k ^ j" using k1 by (rule power_increasing)
    with lo assms(3) show False by simp
  qed
  ultimately show ?thesis by (simp add: j_def)
qed

section \<open>Reading back what \<open>toFixed\<close> wrote\<close>

lemma lt10_cases:
  "(i::nat) < 10 \<Longrightarrow> i = 0 \<or> i = 1 \<or> i = 2 \<or> i = 3 \<or> i = 4 \<or> i = 5 \<or> i = 6 \<or> i = 7 \<or> i = 8 \<or> i = 9"
  by arith

lemma digit_char_props:
  "is_digit (digit_char d) \<and> digit_val (digit_char d) = d mod 10 \<and>
   \<not> js_space (digit_char d) \<and> digit_char d \<noteq> CHR ''-'' \<and> digit_char d \<noteq> CHR ''+'' \<and>
   digit_char d \<noteq> CHR ''.''"
proof -
  have "d mod 10 < 10" by simp
  from lt10_cases [OF this] show ?thesis
    by (elim disjE) (simp_all add: digit_char_def is_digit_def digit_val_def js_space_def)
qed

lemma digits_val_snoc: "digits_val (ds @ [c]) = 10 * digits_val ds + digit_val c"
  by (simp add: digits_val_def)

lemma show_nat_props:
  "show_nat n \<noteq> [] \<and> list_all is_digit (show_nat n) \<and> digits_val (show_nat n) = n"
proof (induction n rule: show_nat.induct)
  case (1 n)
  show ?case
  proof (cases "n < 10")
    case True
    then show ?thesis
      by (simp add: show_nat.simps [of n] digit_char_props digits_val_def)
  next
    case False
    with 1 have ih: "list_all is_digit (show_nat (n div 10))"
      "digits_val (show_nat (n div 10)) = n div 10" by simp_all
    from False have eq: "show_nat n = show_nat (n div 10) @ [digit_char (n mod 10)]"
      by (simp add: show_nat.simps [of n])
    show ?thesis
      by (simp add: eq ih digits_val_snoc digit_char_props)
  qed
qed


lemma parseFloat_digits_point_digits:
  assumes "ip \<noteq> []" and "list_all is_digit ip" and "list_all is_digit fs"
  shows "parseFloat (ip @ CHR ''.'' # fs) =
           Some (of_nat (digits_val ip) + of_nat (digits_val fs) / 10 ^ length fs)"
proof -
  let ?s = "ip @ CHR ''.'' # fs"
  have nd: "\<not> is_digit CHR ''.''"
    by (simp add: is_digit_def)
  from assms(1,2) obtain c cs where ip: "ip = c # cs" and c: "is_digit c"
    by (cases ip) simp_all
  from c have c': "\<not> js_space c" "c \<noteq> CHR ''-''" "c \<noteq> CHR ''+''"
    by (auto simp: is_digit_def js_space_def)
  have dw: "dropWhile js_space ?s = ?s"
    using c' by (simp add: ip)
  have h: "hd ?s = c" "?s \<noteq> []"
    by (simp_all add: ip)
  have tw: "takeWhile is_digit ?s = ip"
    using assms(2) nd by (simp add: list_all_iff takeWhile_append2)
  have dr: "dropWhile is_digit ?s = CHR ''.'' # fs"
    using assms(2) nd by (simp add: list_all_iff dropWhile_append2)
  have tf: "takeWhile is_digit fs = fs"
    using assms(3) by (simp add: list_all_iff)
  show ?thesis
    unfolding parseFloat_def Let_def dw h tw
    using c' assms(1) h(2) by (simp add: tw dr tf)
qed


lemma two_digits_val:
  "digits_val [digit_char (n div 10 mod 10), digit_char (n mod 10)] = n mod 100"
proof -
  have "digits_val [digit_char (n div 10 mod 10), digit_char (n mod 10)] =
      10 * (n div 10 mod 10) + n mod 10"
    by (simp add: digits_val_def digit_char_props)
  also have "\<dots> = n mod 100" using mod_mult2_eq [of n 10 10] by simp
  finally show ?thesis .
qed

lemma hundredths_split:
  "of_nat (n div 100) + of_nat (n mod 100) / 100 = (of_nat n :: rat) / 100"
proof -
  have "(of_nat n :: rat) = of_nat (n div 100 * 100 + n mod 100)" by simp
  also have "\<dots> = of_nat (n div 100) * 100 + of_nat (n mod 100)"
    by (simp only: of_nat_add of_nat_mult of_nat_numeral)
  finally show ?thesis by simp
qed

text \<open>
  \<open>parseFloat(x.toFixed(2))\<close> is \<open>x\<close> rounded to hundredths, so \<open>number_to_string\<close> only
  meets numbers with at most two fractional digits in \<open>formatFileSize\<close>.
\<close>

lemma parseFloat_toFixed2:
  assumes "0 \<le> x"
  shows "parseFloat (toFixed2 x) = Some (of_int \<lfloor>x * 100 + 1 / 2\<rfloor> / 100)"
proof -
  define n where "n = nat \<lfloor>x * 100 + 1 / 2\<rfloor>"
  from assms have "0 \<le> \<lfloor>x * 100 + 1 / 2\<rfloor>" by simp
  then have nn: "(of_int \<lfloor>x * 100 + 1 / 2\<rfloor> :: rat) = of_nat n"
    by (simp add: n_def)
  from assms have tf: "toFixed2 x =
      show_nat (n div 100) @ CHR ''.'' # [digit_char (n div 10 mod 10), digit_char (n mod 10)]"
    by (simp add: toFixed2_def n_def Let_def)
  have sp: "show_nat (n div 100) \<noteq> []" "list_all is_digit (show_nat (n div 100))"
    and dv: "digits_val (show_nat (n div 100)) = n div 100"
    using show_nat_props [of "n div 100"] by simp_all
  have fs: "list_all is_digit [digit_char (n div 10 mod 10), digit_char (n mod 10)]"
    by (simp add: digit_char_props)
  have "parseFloat (toFixed2 x) = Some (of_nat (n div 100) + of_nat (n mod 100) / 100)"
    unfolding tf parseFloat_digits_point_digits [OF sp fs] dv two_digits_val by simp
  then show ?thesis by (simp only: hundredths_split nn)
qed

lemma formatFileSize_pos:
  assumes "0 < bytes"
  shows "formatFileSize bytes =
           number_to_string
             (Some (of_int \<lfloor>(of_nat bytes :: rat) / 1024 ^ floor_log 1024 bytes * 100 + 1 / 2\<rfloor>
                    / 100))
           @ '' '' @ sizes_at (floor_log 1024 bytes)"
proof -
  have "(0::rat) \<le> of_nat bytes / 1024 ^ floor_log 1024 bytes" by simp
  from parseFloat_toFixed2 [OF this] assms show ?thesis
    by (simp add: formatFileSize_def Let_def)
qed

text \<open>A whole number of units is written without a fraction.\<close>

lemma formatFileSize_whole:
  assumes "1 \<le> m" and "m < 1024"
  shows "formatFileSize (m * 1024 ^ i) = show_nat m @ '' '' @ sizes_at i"
proof -
  have lo: "(1024::nat) ^ i \<le> m * 1024 ^ i" using assms(1) by simp
  have hi: "m * 1024 ^ i < (1024::nat) ^ Suc i" using assms(2) by simp
  have fl: "floor_log 1024 (m * 1024 ^ i) = i"
    by (rule floor_log_unique [OF _ lo hi]) simp
  have pos: "0 < m * (1024::nat) ^ i" using assms(1) by simp
  have q: "(of_nat (m * 1024 ^ i) :: rat) / 1024 ^ i = of_nat m" by simp
  have "\<lfloor>(of_nat m :: rat) * 100 + 1 / 2\<rfloor> = int m * 100"
  proof (rule floor_unique)
    show "of_int (int m * 100) \<le> (of_nat m :: rat) * 100 + 1 / 2" by simp
    show "(of_nat m :: rat) * 100 + 1 / 2 < of_int (int m * 100) + 1" by simp
  qed
  then have r: "(of_int \<lfloor>(of_nat m :: rat) * 100 + 1 / 2\<rfloor> :: rat) / 100 = of_nat m"
    by simp
  have ns: "number_to_string (Some (of_nat m)) = show_nat m"
  proof -
    have "\<bar>of_nat m :: rat\<bar> * 100 = of_nat (m * 100)" by simp
    then have "nat \<lfloor>\<bar>of_nat m :: rat\<bar> * 100\<rfloor> = m * 100"
      by (simp only: floor_of_nat nat_int)
    then show ?thesis by (simp add: number_to_string_def Let_def)
  qed
  show ?thesis
    by (simp only: formatFileSize_pos [OF pos] fl q r ns)
qed

section \<open>The size of an uploaded file as text\<close>

text \<open>
  Claim C3, as stated: \<open>formatFileSize\<close> applied to 1,048,576 bytes returns
  \<open>1.00 MB\<close>. It does not: \<open>toFixed(2)\<close> does produce \<open>1.00\<close>, but the code passes that
  text through \<open>parseFloat\<close> before it appends the unit, and the number 1 is written
  as \<open>1\<close>.
\<close>

theorem C3_formatFileSize_not_two_decimals: "formatFileSize 1048576 \<noteq> ''1.00 MB''"
  by (simp add: formatFileSize_MiB)

text \<open>
  Claim C3, amended: the 1,048,576 bytes are divided by \<open>1024\<^sup>2\<close> and \<open>toFixed(2)\<close>
  gives \<open>1.00\<close>; \<open>formatFileSize\<close> returns \<open>1 MB\<close>; and dropping the one file
  \<open>notes.pdf\<close> of that size yields the descriptor with name \<open>notes.pdf\<close>, size \<open>1 MB\<close>
  and status \<open>processed\<close>.
\<close>

theorem C3_formatFileSize_MiB:
  "toFixed2 (of_nat 1048576 / of_nat 1024 ^ 2) = ''1.00'' \<and>
   formatFileSize 1048576 = ''1 MB'' \<and>
   newDocs [\<lparr>file_name = ''notes.pdf'', file_size = 1048576\<rparr>] =
     [\<lparr>doc_name = ''notes.pdf'', doc_size = ''1 MB'', doc_status = ''processed''\<rparr>]"
  by (simp add: newDocs_def formatFileSize_MiB toFixed2_one)

section \<open>Blank input\<close>

text \<open>\<open>input.trim()\<close> is the empty string exactly when every character is white space.\<close>

lemma trim_empty_iff: "trim s = '''' \<longleftrightarrow> list_all js_space s"
proof -
  have "dropWhile js_space (rev (dropWhile js_space s)) = [] \<longleftrightarrow> dropWhile js_space s = []"
  proof
    assume a: "dropWhile js_space (rev (dropWhile js_space s)) = []"
    show "dropWhile js_space s = []"
    proof (rule ccontr)
      assume n: "dropWhile js_space s \<noteq> []"
      then have "\<not> js_space (hd (dropWhile js_space s))" by (rule hd_dropWhile)
      moreover from a have "\<forall>x\<in>set (dropWhile js_space s). js_space x"
        by (simp add: dropWhile_eq_Nil_conv)
      ultimately show False using n by (metis hd_in_set)
    qed
  next
    assume "dropWhile js_space s = []"
    then show "dropWhile js_space (rev (dropWhile js_space s)) = []"
      by (auto dest: set_dropWhileD)
  qed
  then show ?thesis by (simp add: trim_def dropWhile_eq_Nil_conv list_all_iff)
qed

section \<open>Uploading\<close>

text \<open>
  The continuation of \<open>onDrop\<close> after a successful upload, at whatever state the shell is
  in by then.
\<close>

lemma onDrop_resume_success:
  "fst (onDrop_resume acceptedFiles (Inr result) a) =
     a\<lparr>documents := documents a @ newDocs acceptedFiles,
       chapters := result_chapters result, isLoading := False\<rparr>"
  by (simp add: onDrop_resume_def)

lemma onDrop_resume_failure:
  "documents (fst (onDrop_resume acceptedFiles (Inl err) a)) = documents a \<and>
   chapters (fst (onDrop_resume acceptedFiles (Inl err) a)) = chapters a"
  by (simp add: onDrop_resume_def)

text \<open>
  Claim C1: for every non-empty list of accepted files, when the upload request
  succeeds, the document list afterwards is the prior list followed by one descriptor
  per file (its name, its size as text, the status \<open>processed\<close>) in the order of the
  files, and the chapter list is the \<open>chapters\<close> field of the response.
\<close>

theorem C1_upload_success:
  assumes "acceptedFiles \<noteq> []" and "server acceptedFiles = Inr result"
  shows "documents (fst (onDrop server acceptedFiles a)) =
           documents a @
           map (\<lambda>f. \<lparr>doc_name = file_name f, doc_size = formatFileSize (file_size f),
                      doc_status = ''processed''\<rparr>) acceptedFiles \<and>
         length (documents (fst (onDrop server acceptedFiles a))) =
           length (documents a) + length acceptedFiles \<and>
         chapters (fst (onDrop server acceptedFiles a)) = result_chapters result"
  using assms
  by (simp add: onDrop_def onDrop_begin_def onDrop_resume_def newDocs_def)

text \<open>C1 at one file \<open>notes.pdf\<close> of 1,048,576 bytes, dropped on the initial state.\<close>

theorem C1_upload_success_witness:
  "[\<lparr>file_name = ''notes.pdf'', file_size = 1048576\<rparr>] \<noteq> [] \<and>
   documents (fst (onDrop (\<lambda>_. Inr \<lparr>result_chapters = [''Chapter 1'']\<rparr>)
      [\<lparr>file_name = ''notes.pdf'', file_size = 1048576\<rparr>] app_init)) =
     [\<lparr>doc_name = ''notes.pdf'', doc_size = ''1 MB'', doc_status = ''processed''\<rparr>] \<and>
   chapters (fst (onDrop (\<lambda>_. Inr \<lparr>result_chapters = [''Chapter 1'']\<rparr>)
      [\<lparr>file_name = ''notes.pdf'', file_size = 1048576\<rparr>] app_init)) = [''Chapter 1'']"
  using C1_upload_success [of "[\<lparr>file_name = ''notes.pdf'', file_size = 1048576\<rparr>]"
      "\<lambda>_. Inr \<lparr>result_chapters = [''Chapter 1'']\<rparr>" "\<lparr>result_chapters = [''Chapter 1'']\<rparr>" app_init]
  by (simp add: app_init_def formatFileSize_MiB)

section \<open>Chatting\<close>

text \<open>The two continuations of \<open>handleSend\<close>, at whatever state the panel is in by then.\<close>

lemma handleSend_resume_success:
  "messages (snd (fst (handleSend_resume now (Inr response) a c))) =
     messages c @
     [\<lparr>role = Assistant, content = answer response, msg_sources = Some (sources response),
       msg_model = Some (model_used response), timestamp = now\<rparr>]"
  by (simp add: handleSend_resume_def)

lemma handleSend_resume_failure:
  "snd (fst (handleSend_resume now (Inl err) a c)) = c"
  by (simp add: handleSend_resume_def)

lemma handleSend_no_preventDefault:
  "PreventDefault \<notin> set (snd (handleSend server now1 now2 a c))"
  by (simp add: handleSend_def handleSend_begin_def handleSend_resume_def interceptor_def
      split: sum.split)

text \<open>
  Claim C2: for every submission whose input is not empty and not white space only,
  when the query succeeds, the history afterwards is the prior history followed by
  exactly two messages: the user's, whose content is the input as typed, then the
  assistant's, with the answer, the sources and the \<open>model_used\<close> of the response.
\<close>

theorem C2_send_success:
  assumes "\<not> list_all js_space (input c)"
    and "server (handleSend_request a c) = Inr response"
  shows "messages (snd (fst (handleSend server now1 now2 a c))) =
           messages c @
           [\<lparr>role = User, content = input c, msg_sources = None, msg_model = None,
             timestamp = now1\<rparr>,
            \<lparr>role = Assistant, content = answer response,
             msg_sources = Some (sources response),
             msg_model = Some (model_used response), timestamp = now2\<rparr>]"
  using assms
  by (simp add: handleSend_def handleSend_begin_def handleSend_resume_def trim_empty_iff)

text \<open>C2 at the input \<open>hi\<close> on an empty history.\<close>

theorem C2_send_success_witness:
  "\<not> list_all js_space (input (chat_init\<lparr>input := ''hi''\<rparr>)) \<and>
   messages (snd (fst (handleSend
       (\<lambda>_. Inr \<lparr>answer = ''yes'', sources = [], model_used = ''gemini-1.5-flash''\<rparr>)
       ''t1'' ''t2'' app_init (chat_init\<lparr>input := ''hi''\<rparr>)))) =
     [\<lparr>role = User, content = ''hi'', msg_sources = None, msg_model = None,
       timestamp = ''t1''\<rparr>,
      \<lparr>role = Assistant, content = ''yes'', msg_sources = Some [],
       msg_model = Some ''gemini-1.5-flash'', timestamp = ''t2''\<rparr>]"
proof -
  have h: "\<not> list_all js_space (input (chat_init\<lparr>input := ''hi''\<rparr>))"
    by (simp add: chat_init_def js_space_def)
  show ?thesis
    using h C2_send_success [OF h,
        of "\<lambda>_. Inr \<lparr>answer = ''yes'', sources = [], model_used = ''gemini-1.5-flash''\<rparr>"
           app_init "\<lparr>answer = ''yes'', sources = [], model_used = ''gemini-1.5-flash''\<rparr>"
           "''t1''" "''t2''"]
    by (simp add: chat_init_def)
qed

text \<open>
  Claim C4: for every submission, if the selected chapter is \<open>All Chapters\<close> the
  \<open>chapter_filter\<close> of the query sent is \<open>null\<close>, and for every other selected chapter it
  is that chapter's text unchanged.
\<close>

theorem C4_chapter_filter:
  assumes "Http (PostQuery body) \<in> set (snd (handleSend server now1 now2 a c))"
  shows "(selectedChapter c = ''All Chapters'' \<longrightarrow> chapter_filter body = None) \<and>
         (selectedChapter c \<noteq> ''All Chapters'' \<longrightarrow>
            chapter_filter body = Some (selectedChapter c))"
  using assms
  by (auto simp: handleSend_def handleSend_begin_def handleSend_resume_def
      handleSend_request_def queryDocuments_def interceptor_def
      split: if_splits sum.splits)

text \<open>C4 at the input \<open>hi\<close> with the chapter \<open>Chapter 1\<close> selected: the query is sent.\<close>

theorem C4_chapter_filter_witness:
  "Http (PostQuery \<lparr>query = ''hi'', chapter_filter = Some ''Chapter 1'',
                     model_name = ''gemini-1.5-flash''\<rparr>)
     \<in> set (snd (handleSend (\<lambda>_. Inl (Error ''timeout'')) ''t1'' ''t2'' app_init
                \<lparr>messages = [], input = ''hi'', selectedChapter = ''Chapter 1''\<rparr>)) \<and>
   selectedChapter \<lparr>messages = [], input = ''hi'', selectedChapter = ''Chapter 1''\<rparr>
     \<noteq> ''All Chapters'' \<and>
   chapter_filter \<lparr>query = ''hi'', chapter_filter = Some ''Chapter 1'',
                   model_name = ''gemini-1.5-flash''\<rparr> =
     Some (selectedChapter \<lparr>messages = [], input = ''hi'', selectedChapter = ''Chapter 1''\<rparr>)"
proof -
  have h: "Http (PostQuery \<lparr>query = ''hi'', chapter_filter = Some ''Chapter 1'',
                     model_name = ''gemini-1.5-flash''\<rparr>)
     \<in> set (snd (handleSend (\<lambda>_. Inl (Error ''timeout'')) ''t1'' ''t2'' app_init
                \<lparr>messages = [], input = ''hi'', selectedChapter = ''Chapter 1''\<rparr>))"
    by (simp add: handleSend_def handleSend_begin_def handleSend_resume_def
        handleSend_request_def queryDocuments_def app_init_def trim_empty_iff js_space_def)
  show ?thesis
    using h C4_chapter_filter [OF h] by simp
qed

text \<open>
  Claim C7: for every submission whose input is empty or white space only, no request
  is issued and the history is unchanged. The handler changes nothing at all and has
  no effect.
\<close>

theorem C7_blank_input:
  assumes "list_all js_space (input c)"
  shows "messages (snd (fst (handleSend server now1 now2 a c))) = messages c \<and>
         snd (handleSend server now1 now2 a c) = [] \<and>
         handleSend server now1 now2 a c = ((a, c), [])"
  using assms by (simp add: handleSend_def trim_empty_iff)

text \<open>C7 at an input of three spaces.\<close>

theorem C7_blank_input_witness:
  "list_all js_space (input (chat_init\<lparr>input := ''   ''\<rparr>)) \<and>
   handleSend (\<lambda>_. Inl (Error ''timeout'')) ''t1'' ''t2'' app_init (chat_init\<lparr>input := ''   ''\<rparr>) =
     ((app_init, chat_init\<lparr>input := ''   ''\<rparr>), [])"
proof -
  have h: "list_all js_space (input (chat_init\<lparr>input := ''   ''\<rparr>))"
    by (simp add: chat_init_def js_space_def)
  show ?thesis
    using h C7_blank_input [OF h, of "\<lambda>_. Inl (Error ''timeout'')" "''t1''" "''t2''" app_init]
    by simp
qed

text \<open>
  Claim C9: for every submission whose input is not blank, when the handler reaches its
  \<open>await\<close> the user message has been appended and the input field is empty, with the
  query issued and not yet settled; the continuation after a failed query leaves the
  input as it finds it; so the input is empty after the submission whatever the outcome
  of the query.
\<close>

theorem C9_input_reset:
  assumes "\<not> list_all js_space (input c)"
  shows "input (snd (fst (handleSend_begin now1 a c))) = '''' \<and>
         messages (snd (fst (handleSend_begin now1 a c))) =
           messages c @ [\<lparr>role = User, content = input c, msg_sources = None,
                          msg_model = None, timestamp = now1\<rparr>] \<and>
         snd (handleSend_begin now1 a c) = [Http (handleSend_request a c)] \<and>
         input (snd (fst (handleSend_resume now2 (Inl err) a1 c1))) = input c1 \<and>
         input (snd (fst (handleSend server now1 now2 a c))) = ''''"
  using assms
  by (simp add: handleSend_def handleSend_begin_def handleSend_resume_def trim_empty_iff
      split: sum.split)

text \<open>C9 at the input \<open>hi\<close> with a query that fails.\<close>

theorem C9_input_reset_witness:
  "\<not> list_all js_space (input (chat_init\<lparr>input := ''hi''\<rparr>)) \<and>
   input (snd (fst (handleSend_begin ''t1'' app_init (chat_init\<lparr>input := ''hi''\<rparr>)))) = '''' \<and>
   snd (fst (handleSend (\<lambda>_. Inl (Error ''timeout'')) ''t1'' ''t2'' app_init
               (chat_init\<lparr>input := ''hi''\<rparr>))) =
     \<lparr>messages = [\<lparr>role = User, content = ''hi'', msg_sources = None, msg_model = None,
                   timestamp = ''t1''\<rparr>],
      input = '''', selectedChapter = ''All Chapters''\<rparr>"
proof -
  have h: "\<not> list_all js_space (input (chat_init\<lparr>input := ''hi''\<rparr>))"
    by (simp add: chat_init_def js_space_def)
  show ?thesis
    using h C9_input_reset [OF h, of "''t1''" app_init]
    by (simp add: chat_init_def handleSend_def handleSend_begin_def handleSend_resume_def
        trim_empty_iff js_space_def)
qed

text \<open>
  Claim C8, as stated: a key press submits if and only if the key is Enter and no
  modifier is held. The handler looks at the Shift flag only: Enter with Control held
  (and Shift not) submits.
\<close>

theorem C8_ctrl_enter_submits:
  "ctrlKey \<lparr>key = ''Enter'', shiftKey = False, ctrlKey = True, altKey = False, metaKey = False\<rparr> \<and>
   snd (handleKeyPress
          (\<lambda>_. Inr \<lparr>answer = ''yes'', sources = [], model_used = ''gemini-1.5-flash''\<rparr>)
          ''t1'' ''t2''
          \<lparr>key = ''Enter'', shiftKey = False, ctrlKey = True, altKey = False, metaKey = False\<rparr>
          app_init (chat_init\<lparr>input := ''hi''\<rparr>)) =
     [PreventDefault,
      Http (PostQuery \<lparr>query = ''hi'', chapter_filter = None,
                        model_name = ''gemini-1.5-flash''\<rparr>)]"
  by (simp add: handleKeyPress_def handleSend_def handleSend_begin_def handleSend_resume_def
      handleSend_request_def queryDocuments_def app_init_def chat_init_def trim_empty_iff
      js_space_def)

text \<open>
  Claim C8, amended: a key press submits (the handler prevents the default action and
  calls \<open>handleSend\<close>) if and only if the key is Enter and Shift is not held; on every
  other key press, Enter with Shift among them, the handler does nothing, so the default
  action of the key (a new line for Enter) takes place. The other modifiers are not
  looked at.
\<close>

theorem C8_keypress:
  "(PreventDefault \<in> set (snd (handleKeyPress server now1 now2 e a c))) =
     (key e = ''Enter'' \<and> \<not> shiftKey e) \<and>
   handleKeyPress server now1 now2 e a c =
     (if key e = ''Enter'' \<and> \<not> shiftKey e
      then (fst (handleSend server now1 now2 a c),
            PreventDefault # snd (handleSend server now1 now2 a c))
      else ((a, c), []))"
  using handleSend_no_preventDefault [of server now1 now2 a c]
  by (simp add: handleKeyPress_def split_beta)
section \<open>Generating a quiz\<close>

lemma parseInt_50: "parseInt ''50'' = Some 50"
  by (simp add: parseInt_def js_space_def is_digit_def digits_val_def digit_val_def)

lemma parseInt_empty: "parseInt '''' = None"
  by (simp add: parseInt_def)

text \<open>Generation is never requested while no chapter is selected.\<close>

lemma quiz_requires_chapter:
  "quiz_selectedChapter q = '''' \<Longrightarrow> Http r \<notin> set (snd (handleGenerateQuiz server a q))"
  by (simp add: handleGenerateQuiz_def handleGenerateQuiz_begin_def)

text \<open>With a chapter selected, the request carries the stored count as it is.\<close>

lemma quiz_sends_stored_count:
  "quiz_selectedChapter q \<noteq> '''' \<Longrightarrow>
   snd (handleGenerateQuiz_begin a q) =
     [Http (PostGenerateQuiz \<lparr>quiz_chapter = quiz_selectedChapter q,
                               num_questions = numQuestions q\<rparr>)]"
  by (simp add: handleGenerateQuiz_begin_def generateQuiz_def)

lemma quiz_count_emptied_field:
  "numQuestions (numQuestions_onChange '''' q) = None"
  by (simp add: numQuestions_onChange_def parseInt_empty)

text \<open>
  Claim C5: the question count is an integer from 1 to 10 whenever a generation request
  is issued, and generation is never invoked while no chapter is selected. The second
  half holds (\<open>quiz_requires_chapter\<close>). The first does not hold of the code: the
  number field declares \<open>min="1" max="10"\<close>, yet its change handler stores \<open>parseInt\<close> of
  whatever text the field holds and \<open>handleGenerateQuiz\<close> sends the stored number
  unchecked. With \<open>Chapter 1\<close> selected and \<open>50\<close> typed into the field, the request
  asks for 50 questions.
\<close>

theorem C5_count_not_clamped:
  "numQuestions (numQuestions_onChange ''50'' (chapter_onChange ''Chapter 1'' quiz_init)) = Some 50 \<and>
   snd (handleGenerateQuiz_begin app_init
          (numQuestions_onChange ''50'' (chapter_onChange ''Chapter 1'' quiz_init))) =
     [Http (PostGenerateQuiz \<lparr>quiz_chapter = ''Chapter 1'', num_questions = Some 50\<rparr>)]"
  by (simp add: handleGenerateQuiz_begin_def numQuestions_onChange_def chapter_onChange_def
      quiz_init_def generateQuiz_def parseInt_50)

section \<open>Clearing all data\<close>

lemma clear_btn_click_cases:
  "clear_btn_click confirmed a sb =
     (if sb_isLoading sb \<or> documents a = [] then ((a, sb), [])
      else if confirmed then
        ((a, sb\<lparr>sb_isLoading := True\<rparr>),
         [Confirm ''Are you sure? This will delete all uploaded documents.'', Http DeleteClear])
      else ((a, sb), [Confirm ''Are you sure? This will delete all uploaded documents.'']))"
  by (simp add: clear_btn_click_def clear_btn_disabled_def handleClearAll_begin_def
      clearAllData_def)

lemma handleClearAll_declined:
  "handleClearAll False outcome a sb =
     ((a, sb), [Confirm ''Are you sure? This will delete all uploaded documents.''])"
  by (simp add: handleClearAll_def handleClearAll_begin_def)

text \<open>
  Claim C6: for every confirmed \<open>Clear All Data\<close>, if the clear request succeeds the
  document list and the chapter list are both empty afterwards, and if it fails both
  are what they were before; in either case the request is issued.
\<close>

theorem C6_clear_all:
  "documents (fst (fst (handleClearAll True (Inr body) a sb))) = [] \<and>
   chapters (fst (fst (handleClearAll True (Inr body) a sb))) = [] \<and>
   length (documents (fst (fst (handleClearAll True (Inr body) a sb)))) = 0 \<and>
   length (chapters (fst (fst (handleClearAll True (Inr body) a sb)))) = 0 \<and>
   documents (fst (fst (handleClearAll True (Inl err) a sb))) = documents a \<and>
   chapters (fst (fst (handleClearAll True (Inl err) a sb))) = chapters a \<and>
   Http clearAllData \<in> set (snd (handleClearAll True outcome a sb))"
  by (simp add: handleClearAll_def handleClearAll_begin_def handleClearAll_resume_def
      onClear_def split: sum.split)

section \<open>The clear button in the running shell\<close>

lemma onDrop_isSidebarOpen: "isSidebarOpen (fst (onDrop server fs a)) = isSidebarOpen a"
  by (simp add: onDrop_def onDrop_begin_def onDrop_resume_def split: sum.split)

lemma handleClearAll_resume_isSidebarOpen:
  "isSidebarOpen (fst (fst (handleClearAll_resume outcome a sb))) = isSidebarOpen a"
  by (simp add: handleClearAll_resume_def onClear_def split: sum.split)

lemma handleClearAll_resume_sidebar:
  "snd (fst (handleClearAll_resume outcome a sb)) = sb\<lparr>sb_isLoading := False\<rparr>"
  by (simp add: handleClearAll_resume_def split: sum.split)

text \<open>A click changes nothing of the shell before the request settles.\<close>

lemma clear_btn_click_shell: "fst (fst (clear_btn_click confirmed a sb)) = a"
  by (simp add: clear_btn_click_cases)

lemma sidebar_inv_init: "sidebar_inv system_init"
  by (simp add: sidebar_inv_def system_init_def)

lemma sidebar_inv_DropFiles:
  "sidebar_inv s \<Longrightarrow> sidebar_inv (fst (step (DropFiles fs outcome) s))"
  by (simp add: sidebar_inv_def split_beta)

lemma sidebar_inv_Toggle: "sidebar_inv s \<Longrightarrow> sidebar_inv (fst (step ToggleSidebar s))"
  by (auto simp: sidebar_inv_def list_all_iff split: option.splits)

lemma sidebar_inv_Exit: "sidebar_inv s \<Longrightarrow> sidebar_inv (fst (step ExitComplete s))"
  by (auto simp: sidebar_inv_def split: if_splits)

lemma sidebar_inv_Click:
  "sidebar_inv s \<Longrightarrow> sidebar_inv (fst (step (ClickClear confirmed) s))"
  by (auto simp: sidebar_inv_def clear_btn_click_cases clearAllData_def list_all_iff
      split: option.splits if_splits)

lemma sidebar_inv_Settled:
  "sidebar_inv s \<Longrightarrow> sidebar_inv (fst (step (ClearSettled i outcome) s))"
  by (auto simp: sidebar_inv_def split_beta handleClearAll_resume_sidebar list_all_iff
      split: option.splits if_splits dest: notin_set_remove1)

lemma sidebar_inv_step: "sidebar_inv s \<Longrightarrow> sidebar_inv (fst (step e s))"
  by (cases e) (simp_all only: sidebar_inv_DropFiles sidebar_inv_Toggle sidebar_inv_Exit
      sidebar_inv_Click sidebar_inv_Settled)

lemma run_snoc: "run (evs @ [e]) s = fst (step e (run evs s))"
  by (simp add: run_def)

lemma sidebar_inv_run: "sidebar_inv (run evs system_init)"
proof (induction evs rule: rev_induct)
  case Nil
  show ?case by (simp add: run_def sidebar_inv_init)
next
  case (snoc e evs)
  then show ?case by (simp only: run_snoc sidebar_inv_step)
qed

text \<open>
  What the guard of the button does give, in every state the shell can reach: a click
  that issues the clear request finds a document in the list the sidebar is drawn from,
  the \<open>isLoading\<close> flag of the sidebar on screen unset, and no request of that sidebar in
  flight.
\<close>

lemma clear_request_only_when_enabled:
  assumes "Http clearAllData \<in> set (snd (step (ClickClear confirmed) (run evs system_init)))"
  shows "\<exists>sb. sidebar (run evs system_init) = Some sb \<and> \<not> sb_isLoading sb \<and>
              documents (sidebar_view (run evs system_init)) \<noteq> [] \<and>
              sidebar_id (run evs system_init) \<notin> set (clear_pending (run evs system_init))"
proof -
  let ?s = "run evs system_init"
  have inv: "sidebar_inv ?s" by (rule sidebar_inv_run)
  from assms obtain sb where sb: "sidebar ?s = Some sb"
    by (cases "sidebar ?s") auto
  from assms sb have en: "\<not> sb_isLoading sb" "documents (sidebar_view ?s) \<noteq> []"
    by (auto simp: clear_btn_click_cases clearAllData_def split_beta split: if_splits)
  from inv sb en have "sidebar_id ?s \<notin> set (clear_pending ?s)"
    by (auto simp: sidebar_inv_def split: if_splits)
  with sb en show ?thesis by simp
qed

text \<open>
  As long as the sidebar is never closed, it is drawn from the current state of the shell
  and is the only sidebar there has been.
\<close>

lemma run_without_toggle:
  "ToggleSidebar \<notin> set evs \<Longrightarrow>
   isSidebarOpen (app (run evs system_init)) \<and> sidebar_id (run evs system_init) = 0 \<and>
   set (clear_pending (run evs system_init)) \<subseteq> {0}"
proof (induction evs rule: rev_induct)
  case Nil
  show ?case by (simp add: run_def system_init_def app_init_def)
next
  case (snoc e evs)
  then have ih: "isSidebarOpen (app (run evs system_init))"
    "sidebar_id (run evs system_init) = 0"
    "set (clear_pending (run evs system_init)) \<subseteq> {0}" by simp_all
  from snoc.prems have ne: "e \<noteq> ToggleSidebar" by auto
  show ?case
  proof (cases e)
    case (DropFiles fs outcome)
    with ih show ?thesis by (simp add: run_snoc split_beta onDrop_isSidebarOpen)
  next
    case ToggleSidebar
    with ne show ?thesis by simp
  next
    case ExitComplete
    with ih show ?thesis by (simp add: run_snoc)
  next
    case (ClickClear confirmed)
    with ih show ?thesis
      by (auto simp: run_snoc split_beta split: option.splits)
  next
    case (ClearSettled i outcome)
    with ih show ?thesis
      by (auto simp: run_snoc split_beta handleClearAll_resume_isSidebarOpen
          split: option.splits dest: notin_set_remove1)
  qed
qed

text \<open>
  So while the sidebar has never been closed, the guard does what claim C10 says: a
  click that issues the clear request finds a document in the shell's list and no clear
  request in flight.
\<close>

lemma clear_guard_while_never_closed:
  assumes "ToggleSidebar \<notin> set evs"
    and "Http clearAllData \<in> set (snd (step (ClickClear confirmed) (run evs system_init)))"
  shows "documents (app (run evs system_init)) \<noteq> [] \<and> clear_pending (run evs system_init) = []"
proof -
  let ?s = "run evs system_init"
  from clear_request_only_when_enabled [OF assms(2)]
  have docs: "documents (sidebar_view ?s) \<noteq> []"
    and own: "sidebar_id ?s \<notin> set (clear_pending ?s)" by blast+
  from run_without_toggle [OF assms(1)]
  have op: "isSidebarOpen (app ?s)" and id0: "sidebar_id ?s = 0"
    and sub: "set (clear_pending ?s) \<subseteq> {0}" by simp_all
  from own id0 sub have "clear_pending ?s = []" by (cases "clear_pending ?s") auto
  with docs op show ?thesis by (simp add: sidebar_view_def)
qed

text \<open>
  Claim C10: \<open>Clear All Data\<close> cannot be invoked while the document list is empty or
  while a clear request is in flight, the button being disabled in both states, so the
  clear endpoint is never called from the sidebar with zero documents. The button's
  guard \<open>disabled={isLoading || documents.length === 0}\<close> is there for this and misses it
  around the closing of the sidebar, in two ways.

  First, the closing sidebar stays on screen, drawn from the document list of its last
  render. After an upload, a confirmed clear, the sidebar closed and the clear settled
  with success, the shell's list is empty, the flag of the closing sidebar is unset
  again and its stale list is not empty: a click calls the clear endpoint with zero
  documents.

  Second, the flag is state of the sidebar and starts out unset in a fresh one. After an
  upload, a confirmed clear, the sidebar closed, taken away and opened again, the first
  request is still in flight and a click issues a second one.
\<close>

theorem C10_clear_guard_missed:
  "documents (app
     (run [DropFiles [\<lparr>file_name = ''notes.pdf'', file_size = 1048576\<rparr>]
             (Inr \<lparr>result_chapters = [''Chapter 1'']\<rparr>),
           ClickClear True, ToggleSidebar, ClearSettled 0 (Inr ''ok'')] system_init)) = [] \<and>
   clear_pending
     (run [DropFiles [\<lparr>file_name = ''notes.pdf'', file_size = 1048576\<rparr>]
             (Inr \<lparr>result_chapters = [''Chapter 1'']\<rparr>),
           ClickClear True, ToggleSidebar, ClearSettled 0 (Inr ''ok'')] system_init) = [] \<and>
   snd (step (ClickClear True)
     (run [DropFiles [\<lparr>file_name = ''notes.pdf'', file_size = 1048576\<rparr>]
             (Inr \<lparr>result_chapters = [''Chapter 1'']\<rparr>),
           ClickClear True, ToggleSidebar, ClearSettled 0 (Inr ''ok'')] system_init)) =
     [Confirm ''Are you sure? This will delete all uploaded documents.'', Http DeleteClear] \<and>
   clear_pending
     (run [DropFiles [\<lparr>file_name = ''notes.pdf'', file_size = 1048576\<rparr>]
             (Inr \<lparr>result_chapters = [''Chapter 1'']\<rparr>),
           ClickClear True, ToggleSidebar, ExitComplete, ToggleSidebar] system_init) = [0] \<and>
   snd (step (ClickClear True)
     (run [DropFiles [\<lparr>file_name = ''notes.pdf'', file_size = 1048576\<rparr>]
             (Inr \<lparr>result_chapters = [''Chapter 1'']\<rparr>),
           ClickClear True, ToggleSidebar, ExitComplete, ToggleSidebar] system_init)) =
     [Confirm ''Are you sure? This will delete all uploaded documents.'', Http DeleteClear]"
  by (simp add: run_def system_init_def app_init_def sidebar_init_def sidebar_view_def
      onDrop_def onDrop_begin_def onDrop_resume_def newDocs_def clear_btn_click_def
      clear_btn_disabled_def handleClearAll_begin_def handleClearAll_resume_def
      onClear_def clearAllData_def)

end
